theory Spec2Isabelle
  imports Main
begin

section \<open>Strings of the Go standard library\<close>

text \<open>
  A Go string is a sequence of bytes, here a \<^typ>\<open>string\<close> whose characters are read as
  bytes. The functions of package \<open>strings\<close> that the scanner calls are written out below.
\<close>

text \<open>
  \<open>strings.HasPrefix(s, prefix)\<close> is \<open>len(s) >= len(prefix) && s[:len(prefix)] == prefix\<close>,
  and \<open>strings.HasSuffix\<close> is the same test at the other end.
\<close>

definition HasPrefix :: "string \<Rightarrow> string \<Rightarrow> bool" where
  "HasPrefix s p = (length p \<le> length s \<and> take (length p) s = p)"

definition HasSuffix :: "string \<Rightarrow> string \<Rightarrow> bool" where
  "HasSuffix s p = (length p \<le> length s \<and> drop (length s - length p) s = p)"

text \<open>\<open>strings.Contains(s, substr)\<close>: \<open>substr\<close> occurs at some offset of \<open>s\<close>.\<close>

fun Contains :: "string \<Rightarrow> string \<Rightarrow> bool" where
  "Contains [] sub = (sub = [])"
| "Contains (c # cs) sub = (if HasPrefix (c # cs) sub then True else Contains cs sub)"

text \<open>\<open>strings.Join(elems, sep)\<close>.\<close>

fun Join :: "string list \<Rightarrow> string \<Rightarrow> string" where
  "Join [] sep = []"
| "Join [x] sep = x"
| "Join (x # y # ys) sep = x @ sep @ Join (y # ys) sep"

text \<open>
  \<open>unicode.IsSpace\<close> holds of the code points U+0009 to U+000D, U+0020, U+0085, U+00A0,
  U+1680, U+2000 to U+200A, U+2028, U+2029, U+202F, U+205F and U+3000. The list below holds
  their UTF-8 encodings. The first byte of each is no continuation byte, so an occurrence
  of one of them in a string always starts at a rune boundary of Go's decoder, and the
  white space of a string can be found on its bytes.
\<close>

definition White_Space :: "string list" where
  "White_Space =
    [[CHR 0x09], [CHR 0x0A], [CHR 0x0B], [CHR 0x0C], [CHR 0x0D], [CHR 0x20],
     [CHR 0xC2, CHR 0x85], [CHR 0xC2, CHR 0xA0],
     [CHR 0xE1, CHR 0x9A, CHR 0x80],
     [CHR 0xE2, CHR 0x80, CHR 0x80], [CHR 0xE2, CHR 0x80, CHR 0x81],
     [CHR 0xE2, CHR 0x80, CHR 0x82], [CHR 0xE2, CHR 0x80, CHR 0x83],
     [CHR 0xE2, CHR 0x80, CHR 0x84], [CHR 0xE2, CHR 0x80, CHR 0x85],
     [CHR 0xE2, CHR 0x80, CHR 0x86], [CHR 0xE2, CHR 0x80, CHR 0x87],
     [CHR 0xE2, CHR 0x80, CHR 0x88], [CHR 0xE2, CHR 0x80, CHR 0x89],
     [CHR 0xE2, CHR 0x80, CHR 0x8A],
     [CHR 0xE2, CHR 0x80, CHR 0xA8], [CHR 0xE2, CHR 0x80, CHR 0xA9],
     [CHR 0xE2, CHR 0x80, CHR 0xAF],
     [CHR 0xE2, CHR 0x81, CHR 0x9F],
     [CHR 0xE3, CHR 0x80, CHR 0x80]]"

text \<open>
  The number of bytes of the white-space rune that \<open>s\<close> starts with, and \<open>0\<close> when \<open>s\<close>
  starts with no such rune.
\<close>

fun spaceWidthIn :: "string list \<Rightarrow> string \<Rightarrow> nat" where
  "spaceWidthIn [] s = 0"
| "spaceWidthIn (w # ws) s = (if HasPrefix s w then length w else spaceWidthIn ws s)"

definition spaceWidth :: "string \<Rightarrow> nat" where
  "spaceWidth s = spaceWidthIn White_Space s"

text \<open>
  \<open>strings.Fields(s)\<close> splits \<open>s\<close> around each run of white space and returns the
  non-empty pieces. The loop keeps the field being read in \<open>cur\<close>; \<open>skip\<close> counts the
  bytes of a white-space rune that are still to be passed over.
\<close>

fun fieldsLoop :: "string \<Rightarrow> nat \<Rightarrow> string \<Rightarrow> string list" where
  "fieldsLoop cur skip [] = (if cur = [] then [] else [cur])"
| "fieldsLoop cur (Suc k) (c # cs) = fieldsLoop cur k cs"
| "fieldsLoop cur 0 (c # cs) =
     (case spaceWidth (c # cs) of
        0 \<Rightarrow> fieldsLoop (cur @ [c]) 0 cs
      | Suc k \<Rightarrow> (if cur = [] then [] else [cur]) @ fieldsLoop [] k cs)"

definition Fields :: "string \<Rightarrow> string list" where
  "Fields s = fieldsLoop [] 0 s"

text \<open>\<open>strings.TrimLeftFunc(s, unicode.IsSpace)\<close>: \<open>s\<close> without its leading white space.\<close>

fun trimLoop :: "nat \<Rightarrow> string \<Rightarrow> string" where
  "trimLoop skip [] = []"
| "trimLoop (Suc k) (c # cs) = trimLoop k cs"
| "trimLoop 0 (c # cs) =
     (case spaceWidth (c # cs) of 0 \<Rightarrow> c # cs | Suc k \<Rightarrow> trimLoop k cs)"

definition TrimLeftSpace :: "string \<Rightarrow> string" where
  "TrimLeftSpace s = trimLoop 0 s"

section \<open>Comment syntax (pkg/issue/comment.go)\<close>

definition fileExtC :: string where "fileExtC = ''.c''"
definition fileExtCpp :: string where "fileExtCpp = ''.cpp''"
definition fileExtCS :: string where "fileExtCS = ''.cs''"
definition fileExtGo :: string where "fileExtGo = ''.go''"
definition fileExtJava :: string where "fileExtJava = ''.java''"
definition fileExtJavaScript :: string where "fileExtJavaScript = ''.js''"
definition fileExtJsx :: string where "fileExtJsx = ''.jsx''"
definition fileExtKotlin :: string where "fileExtKotlin = ''.kt''"
definition fileExtObjC :: string where "fileExtObjC = ''.m''"
definition fileExtPhp :: string where "fileExtPhp = ''.php''"
definition fileExtPython :: string where "fileExtPython = ''.py''"
definition fileExtRust :: string where "fileExtRust = ''.rs''"
definition fileExtMarkdown :: string where "fileExtMarkdown = ''.md''"
definition fileExtScala :: string where "fileExtScala = ''.scala''"
definition fileExtSwift :: string where "fileExtSwift = ''.swift''"
definition fileExtTypeScript :: string where "fileExtTypeScript = ''.ts''"
definition fileExtTsx :: string where "fileExtTsx = ''.tsx''"

definition LINE_TYPE_SRC_CODE :: string where "LINE_TYPE_SRC_CODE = ''src-code''"
definition LINE_TYPE_SINGLE :: string where "LINE_TYPE_SINGLE = ''single''"
definition LINE_TYPE_MULTI_START :: string where "LINE_TYPE_MULTI_START = ''multi-start''"
definition LINE_TYPE_MULTI_END :: string where "LINE_TYPE_MULTI_END = ''multi-end''"

text \<open>
  The struct \<open>Comment\<close> of package \<open>issue\<close>: the prefixes of a language, and the
  classification state of the file being scanned.
\<close>

record Comment =
  SingleLinePrefix :: "string list"
  MultiLineStartPrefix :: "string list"
  MultiLineEndPrefix :: "string list"
  CurrentPrefix :: string
  CurrentLineType :: string

text \<open>The zero value of the struct, which a Go map returns for a key it does not hold.\<close>

definition zeroComment :: Comment where
  "zeroComment =
    \<lparr>SingleLinePrefix = [], MultiLineStartPrefix = [], MultiLineEndPrefix = [],
     CurrentPrefix = [], CurrentLineType = []\<rparr>"

definition CommentSymbols :: "(string \<times> Comment) list" where
  "CommentSymbols =
    [(fileExtC,
      \<lparr>SingleLinePrefix = [''//''], MultiLineStartPrefix = [''/*''],
       MultiLineEndPrefix = [''*/''], CurrentPrefix = [], CurrentLineType = []\<rparr>),
     (fileExtPython,
      \<lparr>SingleLinePrefix = [''#''],
       MultiLineStartPrefix = [[CHR 0x22, CHR 0x22, CHR 0x22], [CHR 0x27, CHR 0x27, CHR 0x27]],
       MultiLineEndPrefix = [[CHR 0x22, CHR 0x22, CHR 0x22], [CHR 0x27, CHR 0x27, CHR 0x27]],
       CurrentPrefix = [], CurrentLineType = []\<rparr>),
     (fileExtMarkdown,
      \<lparr>SingleLinePrefix = [], MultiLineStartPrefix = [''<!--''],
       MultiLineEndPrefix = [''-->''], CurrentPrefix = [], CurrentLineType = []\<rparr>),
     (''default'',
      \<lparr>SingleLinePrefix = [''#''], MultiLineStartPrefix = [''#''],
       MultiLineEndPrefix = [''#''], CurrentPrefix = [], CurrentLineType = []\<rparr>)]"

definition lookupSymbols :: "string \<Rightarrow> Comment" where
  "lookupSymbols key =
     (case map_of CommentSymbols key of None \<Rightarrow> zeroComment | Some c \<Rightarrow> c)"

definition CommentPrefixes :: "string \<Rightarrow> Comment" where
  "CommentPrefixes ext =
     (if ext \<in> set [fileExtC, fileExtCpp, fileExtJava, fileExtJavaScript, fileExtJsx,
                     fileExtTypeScript, fileExtTsx, fileExtCS, fileExtGo, fileExtPhp,
                     fileExtSwift, fileExtKotlin, fileExtRust, fileExtObjC, fileExtScala]
      then lookupSymbols fileExtC
      else if ext = fileExtPython then lookupSymbols fileExtPython
      else if ext = fileExtMarkdown then lookupSymbols fileExtMarkdown
      else lookupSymbols ''default'')"

subsection \<open>Classifying a line\<close>

datatype panic = IndexOutOfRange | NilDereference

text \<open>
  The first loop of \<open>SetLineTypeAndPrefix\<close>, over the single-line prefixes: the first
  prefix the trimmed line starts with, if any.
\<close>

fun singleLoop :: "string \<Rightarrow> string list \<Rightarrow> string option" where
  "singleLoop trimmedLine [] = None"
| "singleLoop trimmedLine (s # ss) =
     (if HasPrefix trimmedLine s then Some s else singleLoop trimmedLine ss)"

text \<open>
  The second loop, \<open>for i := range c.MultiLineStartPrefix\<close>. Both \<open>MultiLineStartPrefix[i]\<close>
  and \<open>MultiLineEndPrefix[i]\<close> are read before either test, so the loop panics at an
  index the end prefixes do not have. Past the last index the line is source code.
\<close>

fun multiLoop :: "Comment \<Rightarrow> string \<Rightarrow> nat \<Rightarrow> nat \<Rightarrow> panic + Comment" where
  "multiLoop c trimmedLine 0 i =
     Inr (c\<lparr>CurrentLineType := LINE_TYPE_SRC_CODE, CurrentPrefix := []\<rparr>)"
| "multiLoop c trimmedLine (Suc n) i =
     (if length (MultiLineEndPrefix c) \<le> i then Inl IndexOutOfRange
      else
        let isMultiStart = HasPrefix trimmedLine (MultiLineStartPrefix c ! i);
            isMultiEnd = HasSuffix trimmedLine (MultiLineEndPrefix c ! i)
        in if isMultiStart
           then Inr (c\<lparr>CurrentLineType := LINE_TYPE_MULTI_START,
                       CurrentPrefix := MultiLineStartPrefix c ! i\<rparr>)
           else if isMultiEnd
           then Inr (c\<lparr>CurrentLineType := LINE_TYPE_MULTI_END,
                       CurrentPrefix := MultiLineEndPrefix c ! i\<rparr>)
           else multiLoop c trimmedLine n (Suc i))"

definition SetLineTypeAndPrefix :: "Comment \<Rightarrow> string \<Rightarrow> panic + Comment" where
  "SetLineTypeAndPrefix c line =
     (let trimmedLine = TrimLeftSpace line in
      if CurrentPrefix c \<noteq> [] \<and>
         (HasPrefix trimmedLine (CurrentPrefix c) \<or> HasSuffix trimmedLine (CurrentPrefix c))
      then Inr c
      else
        case singleLoop trimmedLine (SingleLinePrefix c) of
          Some s \<Rightarrow> Inr (c\<lparr>CurrentLineType := LINE_TYPE_SINGLE, CurrentPrefix := s\<rparr>)
        | None \<Rightarrow> multiLoop c trimmedLine (length (MultiLineStartPrefix c)) 0)"

subsection \<open>Extracting the content of a comment line\<close>

text \<open>
  The loop \<open>for i, s := range fields\<close> of \<open>extractAfterPrefix\<close>: the last argument holds
  the fields from index \<open>i\<close> on.
\<close>

fun afterLoop ::
  "string list \<Rightarrow> string \<Rightarrow> string \<Rightarrow> nat \<Rightarrow> nat \<Rightarrow> string list \<Rightarrow> string \<times> bool" where
  "afterLoop flds annotation prefix start i [] = (Join (drop start flds) '' '', False)"
| "afterLoop flds annotation prefix start i (s # rest) =
     (let start' = (if s = prefix then i + 1 else start)
      in if s = annotation then (Join (drop (i + 1) flds) '' '', True)
         else afterLoop flds annotation prefix start' (i + 1) rest)"

definition extractAfterPrefix :: "string list \<Rightarrow> string \<Rightarrow> string \<Rightarrow> string \<times> bool" where
  "extractAfterPrefix flds annotation prefix =
     (if length flds = 0 then ([], False)
      else afterLoop flds annotation prefix 0 0 flds)"

definition extractBeforeSuffix :: "string list \<Rightarrow> string \<Rightarrow> string \<Rightarrow> string \<times> bool" where
  "extractBeforeSuffix flds annotation prefix =
     (if length flds = 0 then ([], False)
      else if flds ! (length flds - 1) = prefix
      then extractAfterPrefix (take (length flds - 1) flds) annotation prefix
      else extractAfterPrefix flds annotation prefix)"

text \<open>
  \<open>ExtractCommentContent\<close> has a pointer receiver: it returns the content and the flag, and
  leaves the classification of the line in the receiver, which the model returns as well.
\<close>

definition ExtractCommentContent ::
  "Comment \<Rightarrow> string \<Rightarrow> string \<Rightarrow> panic + ((string \<times> bool) \<times> Comment)" where
  "ExtractCommentContent c line annotation =
     (let flds = Fields line in
      case SetLineTypeAndPrefix c (Join flds '' '') of
        Inl p \<Rightarrow> Inl p
      | Inr c' \<Rightarrow>
          if CurrentLineType c' = LINE_TYPE_MULTI_END
          then Inr (extractBeforeSuffix flds annotation (CurrentPrefix c'), c')
          else Inr (extractAfterPrefix flds annotation (CurrentPrefix c'), c'))"

section \<open>Tags found by the lexer (package lexer)\<close>

text \<open>The struct \<open>Comment\<close> of package \<open>lexer\<close>; \<open>[]byte\<close> fields are byte strings.\<close>

record Tag =
  Title :: string
  Description :: string
  TokenIndex :: int
  Source :: string
  SourceFileName :: string

definition Validate :: "Tag \<Rightarrow> bool" where
  "Validate c = (length (Source c) > 0)"

section \<open>Walking the file tree (pkg/tag/walk.go)\<close>

subsection \<open>Errors, ignore patterns and the file system\<close>

text \<open>
  A Go \<open>error\<close> is \<open>nil\<close> (\<open>None\<close>) or a value. \<open>SkipDir\<close> and \<open>SkipAll\<close> are the two
  values of package \<open>filepath\<close> that steer a walk; every other error carries its message.
\<close>

datatype error = SkipDir | SkipAll | IOError string

text \<open>
  The type \<open>GitIgnorePattern\<close> is declared outside the files at hand. \<open>validatePath\<close>
  only calls its method \<open>Match\<close>, so a pattern is taken as the set of paths it matches.
\<close>

type_synonym GitIgnorePattern = "string \<Rightarrow> bool"

definition Match :: "GitIgnorePattern \<Rightarrow> string \<Rightarrow> bool" where
  "Match v path = v path"

fun validatePath :: "string \<Rightarrow> GitIgnorePattern list \<Rightarrow> bool" where
  "validatePath path [] = True"
| "validatePath path (v # vs) = (if Match v path then False else validatePath path vs)"

text \<open>
  What the collaborators of \<open>Walk\<close> answer for one file: \<open>FileOperator.Open\<close>, the entry's
  \<open>Info\<close>, \<open>TagManager.ScanForTags\<close> and the \<open>Close\<close> of the opened file.
\<close>

record 't FileOps =
  OpenError :: "error option"
  InfoError :: "error option"
  ScanTags :: "'t list"
  ScanError :: "error option"
  CloseError :: "error option"

text \<open>
  An entry of the file tree: a file, or a directory with the entries \<open>os.ReadDir\<close> lists
  for it and the error of that listing, if any.
\<close>

datatype 't DirEntry =
  File string "'t FileOps"
| Dir string "'t DirEntry list" "error option"

fun Name :: "'t DirEntry \<Rightarrow> string" where
  "Name (File n ops) = n"
| "Name (Dir n es rerr) = n"

text \<open>\<open>filepath.Join\<close> of a clean path and the name of one of its entries.\<close>

definition JoinPath :: "string \<Rightarrow> string \<Rightarrow> string" where
  "JoinPath path name = path @ ''/'' @ name"

subsection \<open>The directory walk\<close>

text \<open>
  Modelled from the spec: the directory-walking capability \<open>FileOperator.WalkDir\<close> is an
  interface method whose implementation is not among the sources. It is taken to be Go's
  \<open>filepath.WalkDir\<close>, whose \<open>fs.WalkDirFunc\<close> and \<open>filepath.SkipDir\<close> the callback of
  \<open>Walk\<close> uses: entries are visited in listing order; the callback is called for a
  directory before its entries and, when the listing fails, a second time with the error
  of the listing; \<open>SkipDir\<close> returned for a directory skips its entries, \<open>SkipDir\<close>
  returned for a file skips the rest of its directory; any other error stops the walk.
\<close>

type_synonym ('t, 's) WalkDirFunc =
  "string \<Rightarrow> 't DirEntry option \<Rightarrow> error option \<Rightarrow> 's \<Rightarrow> panic + (error option \<times> 's)"

fun walkDir ::
    "('t, 's) WalkDirFunc \<Rightarrow> string \<Rightarrow> 't DirEntry \<Rightarrow> 's \<Rightarrow> panic + (error option \<times> 's)"
  and walkEntries ::
    "('t, 's) WalkDirFunc \<Rightarrow> string \<Rightarrow> 't DirEntry list \<Rightarrow> 's \<Rightarrow> panic + (error option \<times> 's)"
  where
  "walkDir fn path (File n ops) s = fn path (Some (File n ops)) None s"
| "walkDir fn path (Dir n es rerr) s =
     (case fn path (Some (Dir n es rerr)) None s of
        Inl p \<Rightarrow> Inl p
      | Inr (Some e, s1) \<Rightarrow> Inr (if e = SkipDir then None else Some e, s1)
      | Inr (None, s1) \<Rightarrow>
          (case rerr of
             None \<Rightarrow> walkEntries fn path es s1
           | Some re \<Rightarrow>
               (case fn path (Some (Dir n es rerr)) (Some re) s1 of
                  Inl p \<Rightarrow> Inl p
                | Inr (Some e, s2) \<Rightarrow> Inr (if e = SkipDir then None else Some e, s2)
                | Inr (None, s2) \<Rightarrow> walkEntries fn path es s2)))"
| "walkEntries fn path [] s = Inr (None, s)"
| "walkEntries fn path (d1 # ds) s =
     (case walkDir fn (JoinPath path (Name d1)) d1 s of
        Inl p \<Rightarrow> Inl p
      | Inr (Some e, s1) \<Rightarrow> Inr (if e = SkipDir then None else Some e, s1)
      | Inr (None, s1) \<Rightarrow> walkEntries fn path ds s1)"

text \<open>
  \<open>WalkDir\<close> itself: \<open>lstat\<close> is the result of \<open>os.Lstat(root)\<close>. When it fails the
  callback is called once, with no entry.
\<close>

definition WalkDir ::
  "('t, 's) WalkDirFunc \<Rightarrow> string \<Rightarrow> error + 't DirEntry \<Rightarrow> 's \<Rightarrow> panic + (error option \<times> 's)"
  where
  "WalkDir fn root lstat s =
     (case (case lstat of
              Inl e \<Rightarrow> fn root None (Some e) s
            | Inr d \<Rightarrow> walkDir fn root d s) of
        Inl p \<Rightarrow> Inl p
      | Inr (err, s') \<Rightarrow>
          Inr (if err = Some SkipDir \<or> err = Some SkipAll then None else err, s'))"

subsection \<open>Walk and its callback\<close>

text \<open>
  The state of a walk: \<open>tags\<close> is the slice of that name, which the callback appends to.
  \<open>visited\<close> records the paths the callback is called with and \<open>opened\<close> the paths passed
  to \<open>FileOperator.Open\<close>, in order.
\<close>

record 't WalkState =
  tags :: "'t list"
  visited :: "string list"
  opened :: "string list"

record 't WalkParams =
  Root :: string
  FileSystem :: "error + 't DirEntry"
  IgnorePatterns :: "GitIgnorePattern list"

text \<open>The steps of the callback on a file whose path is valid, from \<open>Open\<close> on.\<close>

definition scanFile ::
  "'t FileOps \<Rightarrow> error option \<Rightarrow> 't WalkState \<Rightarrow> error option \<times> 't WalkState" where
  "scanFile ops wErr s =
     (case OpenError ops of
        Some err \<Rightarrow> (Some err, s)
      | None \<Rightarrow>
          (case InfoError ops of
             Some err \<Rightarrow> (Some err, s)
           | None \<Rightarrow>
               (case ScanError ops of
                  Some err \<Rightarrow> (Some err, s)
                | None \<Rightarrow>
                    let s' = s\<lparr>tags := tags s @ ScanTags ops\<rparr>
                    in (case CloseError ops of
                          Some closeErr \<Rightarrow> (Some closeErr, s')
                        | None \<Rightarrow> (wErr, s')))))"

text \<open>
  The function literal passed to \<open>WalkDir\<close>. \<open>d.IsDir()\<close> is called on whatever entry the
  callback is given, so it panics when there is none; it is true of a \<open>Dir\<close> and false of a
  \<open>File\<close>, and \<open>d.Name()\<close> is the name the entry carries.
\<close>

definition callback :: "GitIgnorePattern list \<Rightarrow> ('t, 't WalkState) WalkDirFunc" where
  "callback ignorePatterns path d wErr s =
     (let isValidPath = validatePath path ignorePatterns;
          s0 = s\<lparr>visited := visited s @ [path]\<rparr>
      in case d of
           None \<Rightarrow> Inl NilDereference
         | Some (Dir n es rerr) \<Rightarrow>
             (let isGitDir = Contains n ''.git''
              in if isGitDir \<or> \<not> isValidPath then Inr (Some SkipDir, s0)
                 else Inr (None, s0))
         | Some (File n ops) \<Rightarrow>
             if \<not> isValidPath then Inr (None, s0)
             else Inr (scanFile ops wErr (s0\<lparr>opened := opened s0 @ [path]\<rparr>)))"

definition initState :: "'t WalkState" where
  "initState = \<lparr>tags = [], visited = [], opened = []\<rparr>"

definition runWalk :: "'t WalkParams \<Rightarrow> panic + (error option \<times> 't WalkState)" where
  "runWalk arg = WalkDir (callback (IgnorePatterns arg)) (Root arg) (FileSystem arg) initState"

definition Walk :: "'t WalkParams \<Rightarrow> panic + ('t list \<times> error option)" where
  "Walk arg =
     (case runWalk arg of
        Inl p \<Rightarrow> Inl p
      | Inr (err, s) \<Rightarrow> Inr (tags s, err))"

subsection \<open>What a walk reaches\<close>

text \<open>
  \<open>reaches fn path d s q d' s'\<close>: the walk of entry \<open>d\<close> at \<open>path\<close>, started in state \<open>s\<close>,
  comes to call \<open>walkDir\<close> on entry \<open>d'\<close> at path \<open>q\<close> in state \<open>s'\<close>. The callback has
  then returned \<open>nil\<close> for every directory above \<open>d'\<close>, and every entry listed before
  \<open>d'\<close> or before one of these directories has been walked and returned \<open>nil\<close>.
\<close>

inductive reaches ::
    "('t, 's) WalkDirFunc \<Rightarrow> string \<Rightarrow> 't DirEntry \<Rightarrow> 's \<Rightarrow> string \<Rightarrow> 't DirEntry \<Rightarrow> 's \<Rightarrow> bool"
  and reachesIn ::
    "('t, 's) WalkDirFunc \<Rightarrow> string \<Rightarrow> 't DirEntry list \<Rightarrow> 's \<Rightarrow> string \<Rightarrow> 't DirEntry \<Rightarrow> 's \<Rightarrow> bool"
  for fn :: "('t, 's) WalkDirFunc" where
  here: "reaches fn path d s path d s"
| listed:
    "fn path (Some (Dir n es None)) None s = Inr (None, s1) \<Longrightarrow>
     reachesIn fn path es s1 q d' s' \<Longrightarrow>
     reaches fn path (Dir n es None) s q d' s'"
| partly_listed:
    "fn path (Some (Dir n es (Some re))) None s = Inr (None, s0) \<Longrightarrow>
     fn path (Some (Dir n es (Some re))) (Some re) s0 = Inr (None, s1) \<Longrightarrow>
     reachesIn fn path es s1 q d' s' \<Longrightarrow>
     reaches fn path (Dir n es (Some re)) s q d' s'"
| first:
    "reaches fn (JoinPath path (Name d1)) d1 s q d' s' \<Longrightarrow>
     reachesIn fn path (d1 # ds) s q d' s'"
| later:
    "walkDir fn (JoinPath path (Name d1)) d1 s = Inr (None, s1) \<Longrightarrow>
     reachesIn fn path ds s1 q d' s' \<Longrightarrow>
     reachesIn fn path (d1 # ds) s q d' s'"

text \<open>
  The error of the first step of the callback that fails on a file, in the order of the
  steps: \<open>Open\<close>, \<open>Info\<close>, \<open>ScanForTags\<close>, \<open>Close\<close>.
\<close>

definition stepFailure :: "'t FileOps \<Rightarrow> error option" where
  "stepFailure ops =
     (case OpenError ops of
        Some e \<Rightarrow> Some e
      | None \<Rightarrow>
          (case InfoError ops of
             Some e \<Rightarrow> Some e
           | None \<Rightarrow>
               (case ScanError ops of
                  Some e \<Rightarrow> Some e
                | None \<Rightarrow> CloseError ops)))"

subsection \<open>Example trees\<close>

text \<open>A file that every step succeeds on, in which the scan finds the given tags.\<close>

definition scanned :: "'t list \<Rightarrow> 't FileOps" where
  "scanned ts =
     \<lparr>OpenError = None, InfoError = None, ScanTags = ts, ScanError = None, CloseError = None\<rparr>"

text \<open>A file that cannot be opened.\<close>

definition unreadable :: "string FileOps" where
  "unreadable =
     \<lparr>OpenError = Some (IOError ''permission denied''), InfoError = None, ScanTags = [],
      ScanError = None, CloseError = None\<rparr>"

text \<open>\<open>b.go\<close> cannot be opened; \<open>a.go\<close> is listed before it and \<open>c.go\<close> after it.\<close>

definition repoUnreadableFile :: "string WalkParams" where
  "repoUnreadableFile =
     \<lparr>Root = ''repo'',
      FileSystem = Inr (Dir ''repo''
        [File ''a.go'' (scanned [''fix a'']),
         File ''b.go'' unreadable,
         File ''c.go'' (scanned [''fix c''])] None),
      IgnorePatterns = []\<rparr>"

text \<open>The directory \<open>sub\<close> cannot be listed; \<open>z.go\<close> is listed after it.\<close>

definition repoUnlistedDir :: "string WalkParams" where
  "repoUnlistedDir =
     \<lparr>Root = ''repo'',
      FileSystem = Inr (Dir ''repo''
        [Dir ''sub'' [] (Some (IOError ''permission denied'')),
         File ''z.go'' (scanned [''fix z''])] None),
      IgnorePatterns = []\<rparr>"

text \<open>An ordinary directory \<open>.github\<close> with one file, and no ignore pattern.\<close>

definition repoGithub :: "string WalkParams" where
  "repoGithub =
     \<lparr>Root = ''repo'',
      FileSystem = Inr (Dir ''repo''
        [Dir ''.github'' [File ''ci.yml'' (scanned [''fix ci''])] None] None),
      IgnorePatterns = []\<rparr>"

text \<open>
  A pattern for \<open>node_modules/\<close>, matching every path with that component, and the tree
  \<open>project/node_modules/index.js\<close> beside a file that is kept.
\<close>

definition nodeModules :: GitIgnorePattern where
  "nodeModules path = Contains path ''node_modules''"

definition projectNodeModules :: "string WalkParams" where
  "projectNodeModules =
     \<lparr>Root = ''project'',
      FileSystem = Inr (Dir ''project''
        [Dir ''node_modules'' [File ''index.js'' (scanned [''fix index''])] None,
         File ''main.go'' (scanned [''fix main''])] None),
      IgnorePatterns = [nodeModules]\<rparr>"

section \<open>Auxiliary facts\<close>

lemmas fileExt_defs =
  fileExtC_def fileExtCpp_def fileExtCS_def fileExtGo_def fileExtJava_def
  fileExtJavaScript_def fileExtJsx_def fileExtKotlin_def fileExtObjC_def fileExtPhp_def
  fileExtPython_def fileExtRust_def fileExtMarkdown_def fileExtScala_def fileExtSwift_def
  fileExtTypeScript_def fileExtTsx_def

lemmas LINE_TYPE_defs =
  LINE_TYPE_SRC_CODE_def LINE_TYPE_SINGLE_def LINE_TYPE_MULTI_START_def
  LINE_TYPE_MULTI_END_def

lemmas strings_defs =
  HasPrefix_def HasSuffix_def TrimLeftSpace_def spaceWidth_def White_Space_def

lemma CommentPrefixes_C:
  "CommentPrefixes fileExtC =
     \<lparr>SingleLinePrefix = [''//''], MultiLineStartPrefix = [''/*''],
      MultiLineEndPrefix = [''*/''], CurrentPrefix = [], CurrentLineType = []\<rparr>"
  by (simp add: CommentPrefixes_def lookupSymbols_def CommentSymbols_def fileExt_defs)

lemma Fields_one_liner:
  "Fields ''/* @TODO one-liner */'' = [''/*'', ''@TODO'', ''one-liner'', ''*/'']"
  by (simp add: Fields_def strings_defs)

lemma Fields_refactor: "Fields ''/* @TODO refactor'' = [''/*'', ''@TODO'', ''refactor'']"
  by (simp add: Fields_def strings_defs)

lemma Fields_later:
  "Fields ''   this function later */'' = [''this'', ''function'', ''later'', ''*/'']"
  by (simp add: Fields_def strings_defs)

lemma Fields_fused: "Fields ''//@TODO fix bug'' = [''//@TODO'', ''fix'', ''bug'']"
  by (simp add: Fields_def strings_defs)

lemma slash_star_not_slash_slash: "HasPrefix t ''/*'' \<Longrightarrow> \<not> HasPrefix t ''//''"
  by (cases t; cases "tl t") (auto simp: HasPrefix_def)

lemma afterLoop_not_found:
  "annotation \<notin> set rest \<Longrightarrow> snd (afterLoop flds annotation prefix start i rest) = False"
  by (induction rest arbitrary: start i) (auto simp: Let_def)

lemma extractAfterPrefix_not_found:
  "annotation \<notin> set flds \<Longrightarrow> snd (extractAfterPrefix flds annotation prefix) = False"
  by (simp add: extractAfterPrefix_def afterLoop_not_found)

lemma extractBeforeSuffix_not_found:
  assumes "annotation \<notin> set flds"
  shows "snd (extractBeforeSuffix flds annotation prefix) = False"
proof -
  from assms have "annotation \<notin> set (take (length flds - 1) flds)"
    by (auto dest: in_set_takeD)
  with assms show ?thesis
    by (simp add: extractBeforeSuffix_def extractAfterPrefix_not_found)
qed

lemma multiLoop_returns:
  "i + n \<le> length (MultiLineEndPrefix c) \<Longrightarrow> \<exists>c'. multiLoop c t n i = Inr c'"
  by (induction n arbitrary: i) (auto simp: Let_def)

lemma SetLineTypeAndPrefix_returns:
  "length (MultiLineStartPrefix c) \<le> length (MultiLineEndPrefix c) \<Longrightarrow>
   \<exists>c'. SetLineTypeAndPrefix c line = Inr c'"
  using multiLoop_returns [of 0 "length (MultiLineStartPrefix c)" c]
  by (auto simp: SetLineTypeAndPrefix_def Let_def split: option.splits)

subsection \<open>Facts about the walk\<close>

lemmas walk_eval =
  Walk_def runWalk_def WalkDir_def callback_def scanFile_def initState_def JoinPath_def
  scanned_def unreadable_def HasPrefix_def Match_def

lemma callback_Dir:
  "callback pats path (Some (Dir n es rerr)) w s =
     Inr (if Contains n ''.git'' \<or> \<not> validatePath path pats then Some SkipDir else None,
          s\<lparr>visited := visited s @ [path]\<rparr>)"
  by (simp add: callback_def)

lemma callback_File:
  "callback pats path (Some (File n ops)) w s =
     (if \<not> validatePath path pats then Inr (None, s\<lparr>visited := visited s @ [path]\<rparr>)
      else Inr (scanFile ops w (s\<lparr>visited := visited s @ [path], opened := opened s @ [path]\<rparr>)))"
  by (simp add: callback_def)

lemma validatePath_iff: "validatePath path pats \<longleftrightarrow> \<not> (\<exists>v \<in> set pats. Match v path)"
  by (induction pats) auto

lemma walk_invariant:
  fixes fn :: "('t, 's) WalkDirFunc"
  shows "\<forall>path d w s r s'. I s \<and> fn path d w s = Inr (r, s') \<longrightarrow> I s' \<Longrightarrow>
         I s \<Longrightarrow> walkDir fn path d s = Inr (r, s') \<Longrightarrow> I s'"
    and "\<forall>path d w s r s'. I s \<and> fn path d w s = Inr (r, s') \<longrightarrow> I s' \<Longrightarrow>
         I s \<Longrightarrow> walkEntries fn path ds s = Inr (r, s') \<Longrightarrow> I s'"
proof (induction fn path d s and fn path ds s arbitrary: r s' and r s' rule: walkDir_walkEntries.induct)
  case (1 fn path n ops s)
  then show ?case by auto
next
  case (2 fn path n es rerr s)
  obtain r0 s0 where c0: "fn path (Some (Dir n es rerr)) None s = Inr (r0, s0)"
    using "2.prems"(3) by (auto split: sum.splits)
  have I0: "I s0" using "2.prems"(1,2) c0 by blast
  show ?case
  proof (cases r0)
    case (Some e)
    with c0 "2.prems"(3) I0 show ?thesis by (auto split: if_splits)
  next
    case None
    note r0 = None
    show ?thesis
    proof (cases rerr)
      case None
      with c0 r0 "2.prems"(3) have "walkEntries fn path es s0 = Inr (r, s')" by simp
      with "2.IH"(1) [OF c0 refl r0 None "2.prems"(1) I0] show ?thesis by simp
    next
      case (Some re)
      obtain r1 s1 where c1: "fn path (Some (Dir n es rerr)) (Some re) s0 = Inr (r1, s1)"
        using "2.prems"(3) c0 r0 Some by (auto split: sum.splits)
      have I1: "I s1" using "2.prems"(1) I0 c1 by blast
      show ?thesis
      proof (cases r1)
        case (Some e)
        with c0 r0 c1 \<open>rerr = Some re\<close> "2.prems"(3) I1 show ?thesis by (auto split: if_splits)
      next
        case None
        with c0 r0 c1 \<open>rerr = Some re\<close> "2.prems"(3)
        have "walkEntries fn path es s1 = Inr (r, s')" by simp
        with "2.IH"(2) [OF c0 refl r0 \<open>rerr = Some re\<close> c1 refl None "2.prems"(1) I1]
        show ?thesis by simp
      qed
    qed
  qed
next
  case (3 fn path s)
  then show ?case by simp
next
  case (4 fn path d1 ds s)
  obtain r0 s0 where c0: "walkDir fn (JoinPath path (Name d1)) d1 s = Inr (r0, s0)"
    using "4.prems"(3) by (auto split: sum.splits)
  have I0: "I s0" using "4.IH"(1) [OF "4.prems"(1,2) c0] .
  show ?case
  proof (cases r0)
    case None
    with c0 "4.prems"(3) have "walkEntries fn path ds s0 = Inr (r, s')" by simp
    with "4.IH"(2) [OF c0 refl None "4.prems"(1) I0] show ?thesis by simp
  next
    case (Some e)
    with c0 "4.prems"(3) I0 show ?thesis by (auto split: if_splits)
  qed
qed

lemma scanFile_opened: "scanFile ops w s = (r, s') \<Longrightarrow> opened s' = opened s"
  by (auto simp: scanFile_def Let_def split: option.splits)

lemma callback_opened_valid:
  assumes "\<forall>p \<in> set (opened s). validatePath p pats"
    and "callback pats path d w s = Inr (r, s')"
  shows "\<forall>p \<in> set (opened s'). validatePath p pats"
proof (cases d)
  case None
  with assms show ?thesis by (simp add: callback_def)
next
  case (Some e)
  show ?thesis
  proof (cases e)
    case (Dir n es rerr)
    with Some assms show ?thesis by (auto simp: callback_Dir)
  next
    case (File n ops)
    show ?thesis
    proof (cases "validatePath path pats")
      case False
      with Some File assms show ?thesis by (auto simp: callback_File)
    next
      case True
      with Some File assms(2)
      have "scanFile ops w (s\<lparr>visited := visited s @ [path], opened := opened s @ [path]\<rparr>) = (r, s')"
        by (simp add: callback_File)
      then have "opened s' = opened s @ [path]"
        by (auto dest: scanFile_opened)
      with True assms(1) show ?thesis by auto
    qed
  qed
qed

lemma runWalk_opened_valid:
  assumes "runWalk arg = Inr (err, s)"
  shows "\<forall>p \<in> set (opened s). validatePath p (IgnorePatterns arg)"
proof -
  let ?I = "\<lambda>s :: 'a WalkState. \<forall>p \<in> set (opened s). validatePath p (IgnorePatterns arg)"
  let ?cb = "callback (IgnorePatterns arg)"
  have step: "\<forall>path d w s r s'. ?I s \<and> ?cb path d w s = Inr (r, s') \<longrightarrow> ?I s'"
    using callback_opened_valid by blast
  have init: "?I initState" by (simp add: initState_def)
  show ?thesis
  proof (cases "FileSystem arg")
    case (Inl e)
    with assms show ?thesis
      by (simp add: runWalk_def WalkDir_def callback_def)
  next
    case (Inr root)
    with assms obtain r where "walkDir ?cb (Root arg) root initState = Inr (r, s)"
      by (auto simp: runWalk_def WalkDir_def split: sum.splits)
    with walk_invariant(1) [of ?I ?cb, OF step init] show ?thesis by blast
  qed
qed

lemma reaches_error:
  "reaches fn p d s q d' s' \<Longrightarrow> walkDir fn q d' s' = Inr (Some e, s'') \<Longrightarrow> e \<noteq> SkipDir \<Longrightarrow>
   walkDir fn p d s = Inr (Some e, s'')"
  and reachesIn_error:
  "reachesIn fn p ds s q d' s' \<Longrightarrow> walkDir fn q d' s' = Inr (Some e, s'') \<Longrightarrow> e \<noteq> SkipDir \<Longrightarrow>
   walkEntries fn p ds s = Inr (Some e, s'')"
  by (induction rule: reaches_reachesIn.inducts) simp_all

lemma scanFile_failure:
  "stepFailure ops = Some e \<Longrightarrow>
   scanFile ops None s =
     (Some e, s\<lparr>tags := tags s @
        (if OpenError ops = None \<and> InfoError ops = None \<and> ScanError ops = None
         then ScanTags ops else [])\<rparr>)"
  by (auto simp: stepFailure_def scanFile_def Let_def split: option.splits)

section \<open>Validity of a tag\<close>

text \<open>
  C1, as the code has it: \<open>Validate\<close> returns true if and only if the source content of
  the tag is non-empty. The title is not looked at: changing it does not change the
  answer.
\<close>

theorem Validate_iff_Source:
  "Validate c = (Source c \<noteq> []) \<and> Validate (c\<lparr>Title := t\<rparr>) = Validate c"
  by (simp add: Validate_def)

text \<open>
  C1 as stated fails: a tag with an empty title and a non-empty source is valid, so
  \<open>Validate\<close> is not the test that title and source are both non-empty.
\<close>

theorem Validate_empty_title_counterexample:
  "Validate \<lparr>Title = [], Description = [], TokenIndex = 0, Source = ''// @TODO'',
             SourceFileName = ''main.go''\<rparr> \<noteq>
   (Title \<lparr>Title = [], Description = [], TokenIndex = 0, Source = ''// @TODO'',
           SourceFileName = ''main.go''\<rparr> \<noteq> [] \<and>
    Source \<lparr>Title = [], Description = [], TokenIndex = 0, Source = ''// @TODO'',
            SourceFileName = ''main.go''\<rparr> \<noteq> [])"
  by (simp add: Validate_def)

section \<open>The syntax registry\<close>

text \<open>
  C9: for every extension that is none of the extensions mapped to the C-style syntax,
  nor that of Python, nor that of Markdown, \<open>CommentPrefixes\<close> returns the default
  syntax: the marker \<open>#\<close> is its only single-line prefix, its only multi-line start
  prefix and its only multi-line end prefix.
\<close>

theorem CommentPrefixes_default:
  "ext \<notin> {''.c'', ''.cpp'', ''.java'', ''.js'', ''.jsx'', ''.ts'', ''.tsx'', ''.cs'', ''.go'',
            ''.php'', ''.swift'', ''.kt'', ''.rs'', ''.m'', ''.scala''} \<Longrightarrow>
   ext \<noteq> ''.py'' \<Longrightarrow> ext \<noteq> ''.md'' \<Longrightarrow>
   CommentPrefixes ext =
     \<lparr>SingleLinePrefix = [''#''], MultiLineStartPrefix = [''#''], MultiLineEndPrefix = [''#''],
      CurrentPrefix = [], CurrentLineType = []\<rparr>"
  by (simp add: CommentPrefixes_def lookupSymbols_def CommentSymbols_def fileExt_defs)

theorem CommentPrefixes_default_witness:
  "CommentPrefixes ''.hs'' =
     \<lparr>SingleLinePrefix = [''#''], MultiLineStartPrefix = [''#''], MultiLineEndPrefix = [''#''],
      CurrentPrefix = [], CurrentLineType = []\<rparr>"
  using CommentPrefixes_default [of "''.hs''"] by simp

section \<open>The classifier\<close>

text \<open>
  C8: in every state whose active prefix is non-empty, on every line whose trimmed text
  starts with that prefix or ends with it, \<open>SetLineTypeAndPrefix\<close> returns and leaves the
  state as it was, \<open>CurrentLineType\<close> and \<open>CurrentPrefix\<close> included.
\<close>

theorem SetLineTypeAndPrefix_continuation:
  "CurrentPrefix c \<noteq> [] \<Longrightarrow>
   HasPrefix (TrimLeftSpace line) (CurrentPrefix c) \<or>
   HasSuffix (TrimLeftSpace line) (CurrentPrefix c) \<Longrightarrow>
   SetLineTypeAndPrefix c line = Inr c"
  by (simp add: SetLineTypeAndPrefix_def)

theorem SetLineTypeAndPrefix_continuation_witness:
  "CurrentPrefix ((CommentPrefixes fileExtC)
      \<lparr>CurrentLineType := LINE_TYPE_MULTI_START, CurrentPrefix := ''/*''\<rparr>) \<noteq> [] \<and>
   HasPrefix (TrimLeftSpace ''  /***** box *****'') ''/*'' \<and>
   SetLineTypeAndPrefix
     ((CommentPrefixes fileExtC)\<lparr>CurrentLineType := LINE_TYPE_MULTI_START, CurrentPrefix := ''/*''\<rparr>)
     ''  /***** box *****'' =
   Inr ((CommentPrefixes fileExtC)\<lparr>CurrentLineType := LINE_TYPE_MULTI_START, CurrentPrefix := ''/*''\<rparr>)"
proof -
  have t: "HasPrefix (TrimLeftSpace ''  /***** box *****'') ''/*''"
    by (simp add: strings_defs)
  show ?thesis
    using t SetLineTypeAndPrefix_continuation
      [of "(CommentPrefixes fileExtC)\<lparr>CurrentLineType := LINE_TYPE_MULTI_START, CurrentPrefix := ''/*''\<rparr>"
          "''  /***** box *****''"]
    by simp
qed

text \<open>
  C5: with the C-style syntax and a fresh state, every line whose trimmed text starts
  with \<open>/*\<close> and ends with \<open>*/\<close> is classified \<open>MULTI_START\<close> with active prefix \<open>/*\<close>;
  and on the line \<open>/* @TODO one-liner */\<close> with the token \<open>@TODO\<close>,
  \<open>ExtractCommentContent\<close> returns the content \<open>one-liner */\<close> and found = true, the end
  delimiter included, the line being classified \<open>MULTI_START\<close>.
\<close>

theorem start_takes_precedence:
  "(\<forall>line.
      HasPrefix (TrimLeftSpace line) ''/*'' \<and> HasSuffix (TrimLeftSpace line) ''*/'' \<longrightarrow>
      SetLineTypeAndPrefix (CommentPrefixes fileExtC) line =
        Inr ((CommentPrefixes fileExtC)
               \<lparr>CurrentLineType := LINE_TYPE_MULTI_START, CurrentPrefix := ''/*''\<rparr>)) \<and>
   ExtractCommentContent (CommentPrefixes fileExtC) ''/* @TODO one-liner */'' ''@TODO'' =
     Inr ((''one-liner */'', True),
          (CommentPrefixes fileExtC)
            \<lparr>CurrentLineType := LINE_TYPE_MULTI_START, CurrentPrefix := ''/*''\<rparr>)"
proof (intro conjI allI impI)
  fix line
  assume a: "HasPrefix (TrimLeftSpace line) ''/*'' \<and> HasSuffix (TrimLeftSpace line) ''*/''"
  then have "\<not> HasPrefix (TrimLeftSpace line) ''//''"
    by (simp add: slash_star_not_slash_slash)
  with a show "SetLineTypeAndPrefix (CommentPrefixes fileExtC) line =
      Inr ((CommentPrefixes fileExtC)
             \<lparr>CurrentLineType := LINE_TYPE_MULTI_START, CurrentPrefix := ''/*''\<rparr>)"
    by (simp add: SetLineTypeAndPrefix_def CommentPrefixes_C)
next
  show "ExtractCommentContent (CommentPrefixes fileExtC) ''/* @TODO one-liner */'' ''@TODO'' =
     Inr ((''one-liner */'', True),
          (CommentPrefixes fileExtC)
            \<lparr>CurrentLineType := LINE_TYPE_MULTI_START, CurrentPrefix := ''/*''\<rparr>)"
    by (simp add: ExtractCommentContent_def Fields_one_liner SetLineTypeAndPrefix_def
        CommentPrefixes_C strings_defs extractAfterPrefix_def LINE_TYPE_defs)
qed

theorem start_takes_precedence_witness:
  "HasPrefix (TrimLeftSpace ''/* @TODO one-liner */'') ''/*'' \<and>
   HasSuffix (TrimLeftSpace ''/* @TODO one-liner */'') ''*/'' \<and>
   SetLineTypeAndPrefix (CommentPrefixes fileExtC) ''/* @TODO one-liner */'' =
     Inr ((CommentPrefixes fileExtC)
            \<lparr>CurrentLineType := LINE_TYPE_MULTI_START, CurrentPrefix := ''/*''\<rparr>)"
proof -
  have h: "HasPrefix (TrimLeftSpace ''/* @TODO one-liner */'') ''/*'' \<and>
      HasSuffix (TrimLeftSpace ''/* @TODO one-liner */'') ''*/''"
    by (simp add: strings_defs)
  from start_takes_precedence have
    "HasPrefix (TrimLeftSpace ''/* @TODO one-liner */'') ''/*'' \<and>
     HasSuffix (TrimLeftSpace ''/* @TODO one-liner */'') ''*/'' \<longrightarrow>
     SetLineTypeAndPrefix (CommentPrefixes fileExtC) ''/* @TODO one-liner */'' =
       Inr ((CommentPrefixes fileExtC)
              \<lparr>CurrentLineType := LINE_TYPE_MULTI_START, CurrentPrefix := ''/*''\<rparr>)"
    by blast
  with h show ?thesis by blast
qed

section \<open>The extractor\<close>

text \<open>
  C6: with the C-style syntax, the token \<open>@TODO\<close> and a fresh state, the line
  \<open>/* @TODO refactor\<close> is classified \<open>MULTI_START\<close> and \<open>ExtractCommentContent\<close> returns
  \<open>refactor\<close> and found = true; in the state this leaves, the line
  \<open>   this function later */\<close> is classified \<open>MULTI_END\<close> with active prefix \<open>*/\<close>, its last
  field \<open>*/\<close> is dropped before the search, and \<open>ExtractCommentContent\<close> returns
  \<open>this function later\<close> and found = false.
\<close>

theorem two_line_block:
  "ExtractCommentContent (CommentPrefixes fileExtC) ''/* @TODO refactor'' ''@TODO'' =
     Inr ((''refactor'', True),
          (CommentPrefixes fileExtC)
            \<lparr>CurrentLineType := LINE_TYPE_MULTI_START, CurrentPrefix := ''/*''\<rparr>) \<and>
   ExtractCommentContent
       ((CommentPrefixes fileExtC)
          \<lparr>CurrentLineType := LINE_TYPE_MULTI_START, CurrentPrefix := ''/*''\<rparr>)
       ''   this function later */'' ''@TODO'' =
     Inr ((''this function later'', False),
          (CommentPrefixes fileExtC)
            \<lparr>CurrentLineType := LINE_TYPE_MULTI_END, CurrentPrefix := ''*/''\<rparr>) \<and>
   Fields ''   this function later */'' = [''this'', ''function'', ''later'', ''*/''] \<and>
   extractBeforeSuffix [''this'', ''function'', ''later'', ''*/''] ''@TODO'' ''*/'' =
     extractAfterPrefix [''this'', ''function'', ''later''] ''@TODO'' ''*/''"
proof (intro conjI)
  show "ExtractCommentContent (CommentPrefixes fileExtC) ''/* @TODO refactor'' ''@TODO'' =
     Inr ((''refactor'', True),
          (CommentPrefixes fileExtC)
            \<lparr>CurrentLineType := LINE_TYPE_MULTI_START, CurrentPrefix := ''/*''\<rparr>)"
    by (simp add: ExtractCommentContent_def Fields_refactor SetLineTypeAndPrefix_def
        CommentPrefixes_C strings_defs extractAfterPrefix_def LINE_TYPE_defs)
  show "ExtractCommentContent
       ((CommentPrefixes fileExtC)
          \<lparr>CurrentLineType := LINE_TYPE_MULTI_START, CurrentPrefix := ''/*''\<rparr>)
       ''   this function later */'' ''@TODO'' =
     Inr ((''this function later'', False),
          (CommentPrefixes fileExtC)
            \<lparr>CurrentLineType := LINE_TYPE_MULTI_END, CurrentPrefix := ''*/''\<rparr>)"
    by (simp add: ExtractCommentContent_def Fields_later SetLineTypeAndPrefix_def
        CommentPrefixes_C strings_defs extractAfterPrefix_def extractBeforeSuffix_def
        LINE_TYPE_defs)
  show "Fields ''   this function later */'' = [''this'', ''function'', ''later'', ''*/'']"
    by (rule Fields_later)
  show "extractBeforeSuffix [''this'', ''function'', ''later'', ''*/''] ''@TODO'' ''*/'' =
     extractAfterPrefix [''this'', ''function'', ''later''] ''@TODO'' ''*/''"
    by (simp add: extractBeforeSuffix_def)
qed

text \<open>
  C10: whenever the multi-line end prefixes are at least as many as the start prefixes
  (as in every syntax of the registry), on every line none of whose fields is the
  annotation token, \<open>ExtractCommentContent\<close> returns, with found = false. On the line
  \<open>//@TODO fix bug\<close> with the token \<open>@TODO\<close> and the C-style syntax it returns the whole
  line as content, the line classified \<open>SINGLE\<close>, and found = false.
\<close>

theorem token_needs_own_field:
  "(\<forall>c line annotation.
      length (MultiLineStartPrefix c) \<le> length (MultiLineEndPrefix c) \<and>
      annotation \<notin> set (Fields line) \<longrightarrow>
      (\<exists>content c'. ExtractCommentContent c line annotation = Inr ((content, False), c'))) \<and>
   ExtractCommentContent (CommentPrefixes fileExtC) ''//@TODO fix bug'' ''@TODO'' =
     Inr ((''//@TODO fix bug'', False),
          (CommentPrefixes fileExtC)\<lparr>CurrentLineType := LINE_TYPE_SINGLE, CurrentPrefix := ''//''\<rparr>)"
proof (intro conjI allI impI)
  fix c :: Comment and line annotation :: string
  assume a: "length (MultiLineStartPrefix c) \<le> length (MultiLineEndPrefix c) \<and>
      annotation \<notin> set (Fields line)"
  then obtain c' where c': "SetLineTypeAndPrefix c (Join (Fields line) '' '') = Inr c'"
    using SetLineTypeAndPrefix_returns by blast
  obtain content found where r:
    "(if CurrentLineType c' = LINE_TYPE_MULTI_END
      then extractBeforeSuffix (Fields line) annotation (CurrentPrefix c')
      else extractAfterPrefix (Fields line) annotation (CurrentPrefix c')) = (content, found)"
    by (rule prod.exhaust)
  from a have "snd (if CurrentLineType c' = LINE_TYPE_MULTI_END
      then extractBeforeSuffix (Fields line) annotation (CurrentPrefix c')
      else extractAfterPrefix (Fields line) annotation (CurrentPrefix c')) = False"
    by (simp add: extractBeforeSuffix_not_found extractAfterPrefix_not_found)
  with r have "found = False" by simp
  with r c' have "ExtractCommentContent c line annotation = Inr ((content, False), c')"
    by (auto simp: ExtractCommentContent_def split: if_splits)
  then show "\<exists>content c'. ExtractCommentContent c line annotation = Inr ((content, False), c')"
    by blast
next
  show "ExtractCommentContent (CommentPrefixes fileExtC) ''//@TODO fix bug'' ''@TODO'' =
     Inr ((''//@TODO fix bug'', False),
          (CommentPrefixes fileExtC)\<lparr>CurrentLineType := LINE_TYPE_SINGLE, CurrentPrefix := ''//''\<rparr>)"
    by (simp add: ExtractCommentContent_def Fields_fused SetLineTypeAndPrefix_def
        CommentPrefixes_C strings_defs extractAfterPrefix_def LINE_TYPE_defs)
qed

theorem token_needs_own_field_witness:
  "length (MultiLineStartPrefix (CommentPrefixes fileExtC)) \<le>
     length (MultiLineEndPrefix (CommentPrefixes fileExtC)) \<and>
   ''@TODO'' \<notin> set (Fields ''//@TODO fix bug'') \<and>
   (\<exists>content c'. ExtractCommentContent (CommentPrefixes fileExtC) ''//@TODO fix bug'' ''@TODO'' =
      Inr ((content, False), c'))"
proof -
  have h: "length (MultiLineStartPrefix (CommentPrefixes fileExtC)) \<le>
      length (MultiLineEndPrefix (CommentPrefixes fileExtC)) \<and>
      ''@TODO'' \<notin> set (Fields ''//@TODO fix bug'')"
    by (simp add: CommentPrefixes_C Fields_fused)
  from token_needs_own_field have
    "length (MultiLineStartPrefix (CommentPrefixes fileExtC)) \<le>
       length (MultiLineEndPrefix (CommentPrefixes fileExtC)) \<and>
     ''@TODO'' \<notin> set (Fields ''//@TODO fix bug'') \<longrightarrow>
     (\<exists>content c'. ExtractCommentContent (CommentPrefixes fileExtC) ''//@TODO fix bug'' ''@TODO'' =
        Inr ((content, False), c'))"
    by blast
  with h show ?thesis by blast
qed

section \<open>The walk\<close>

text \<open>
  C7: whatever the walk, when the path of a directory entry matches some ignore pattern,
  the walk of that entry calls the callback for the directory alone and returns: it
  opens no file and visits no entry below the directory. When the path of a file entry
  matches some ignore pattern, the walk of that entry opens nothing either. And at the
  end of a whole walk no path that matches an ignore pattern is among the opened ones.
\<close>

theorem ignored_paths_never_opened:
  "(\<forall>pats v path n (es :: 't DirEntry list) rerr s.
      v \<in> set pats \<and> Match v path \<longrightarrow>
      walkDir (callback pats) path (Dir n es rerr) s =
        Inr (None, s\<lparr>visited := visited s @ [path]\<rparr>)) \<and>
   (\<forall>pats v path n (ops :: 't FileOps) s.
      v \<in> set pats \<and> Match v path \<longrightarrow>
      walkDir (callback pats) path (File n ops) s =
        Inr (None, s\<lparr>visited := visited s @ [path]\<rparr>)) \<and>
   (\<forall>(arg :: 't WalkParams) err s v p.
      runWalk arg = Inr (err, s) \<and> v \<in> set (IgnorePatterns arg) \<and> Match v p \<longrightarrow>
      p \<notin> set (opened s))"
proof (intro conjI allI impI)
  fix pats :: "GitIgnorePattern list" and v path n and es :: "'t DirEntry list" and rerr
    and s :: "'t WalkState"
  assume "v \<in> set pats \<and> Match v path"
  then have "\<not> validatePath path pats" by (auto simp: validatePath_iff)
  then show "walkDir (callback pats) path (Dir n es rerr) s =
      Inr (None, s\<lparr>visited := visited s @ [path]\<rparr>)"
    by (simp add: callback_Dir)
next
  fix pats :: "GitIgnorePattern list" and v path n and ops :: "'t FileOps"
    and s :: "'t WalkState"
  assume "v \<in> set pats \<and> Match v path"
  then have "\<not> validatePath path pats" by (auto simp: validatePath_iff)
  then show "walkDir (callback pats) path (File n ops) s =
      Inr (None, s\<lparr>visited := visited s @ [path]\<rparr>)"
    by (simp add: callback_File)
next
  fix arg :: "'t WalkParams" and err s v p
  assume a: "runWalk arg = Inr (err, s) \<and> v \<in> set (IgnorePatterns arg) \<and> Match v p"
  then have "\<not> validatePath p (IgnorePatterns arg)" by (auto simp: validatePath_iff)
  with a runWalk_opened_valid [of arg err s] show "p \<notin> set (opened s)" by blast
qed

theorem ignored_paths_never_opened_witness:
  "nodeModules \<in> set [nodeModules] \<and> Match nodeModules ''project/node_modules'' \<and>
   walkDir (callback [nodeModules]) ''project/node_modules''
     (Dir ''node_modules'' [File ''index.js'' (scanned [''fix index''])] None)
     \<lparr>tags = [], visited = [''project''], opened = []\<rparr> =
     Inr (None, \<lparr>tags = [], visited = [''project'', ''project/node_modules''], opened = []\<rparr>) \<and>
   runWalk projectNodeModules =
     Inr (None, \<lparr>tags = [''fix main''],
                 visited = [''project'', ''project/node_modules'', ''project/main.go''],
                 opened = [''project/main.go'']\<rparr>) \<and>
   Match nodeModules ''project/node_modules/index.js'' \<and>
   ''project/node_modules/index.js'' \<notin> set [''project/main.go'']"
proof -
  let ?before = "\<lparr>tags = [], visited = [''project''], opened = []\<rparr> :: string WalkState"
  let ?after = "\<lparr>tags = [''fix main''],
             visited = [''project'', ''project/node_modules'', ''project/main.go''],
             opened = [''project/main.go'']\<rparr>"
  have m: "nodeModules \<in> set [nodeModules] \<and> Match nodeModules ''project/node_modules''"
    by (simp add: Match_def nodeModules_def HasPrefix_def)
  have m': "Match nodeModules ''project/node_modules/index.js''"
    by (simp add: Match_def nodeModules_def HasPrefix_def)
  have run: "runWalk projectNodeModules = Inr (None, ?after)"
    by (simp add: projectNodeModules_def nodeModules_def walk_eval)
  from ignored_paths_never_opened have
    "nodeModules \<in> set [nodeModules] \<and> Match nodeModules ''project/node_modules'' \<longrightarrow>
     walkDir (callback [nodeModules]) ''project/node_modules''
       (Dir ''node_modules'' [File ''index.js'' (scanned [''fix index''])] None) ?before =
     Inr (None, ?before\<lparr>visited := visited ?before @ [''project/node_modules'']\<rparr>)"
    by blast
  with m have pruned: "walkDir (callback [nodeModules]) ''project/node_modules''
       (Dir ''node_modules'' [File ''index.js'' (scanned [''fix index''])] None) ?before =
     Inr (None, \<lparr>tags = [], visited = [''project'', ''project/node_modules''], opened = []\<rparr>)"
    by simp
  from ignored_paths_never_opened have
    "runWalk projectNodeModules = Inr (None, ?after) \<and>
     nodeModules \<in> set (IgnorePatterns projectNodeModules) \<and>
     Match nodeModules ''project/node_modules/index.js'' \<longrightarrow>
     ''project/node_modules/index.js'' \<notin> set (opened ?after)"
    by blast
  with run m' have "''project/node_modules/index.js'' \<notin> set [''project/main.go'']"
    by (simp add: projectNodeModules_def)
  with m m' run pruned show ?thesis by blast
qed

text \<open>
  C2, as the code has it: when the walk reaches a file whose path is valid and one of
  the steps on it fails with an error other than \<open>SkipDir\<close> and \<open>SkipAll\<close>, \<open>Walk\<close>
  returns that error, and with it the tags aggregated up to that file; when the failing
  step is \<open>Close\<close>, the tags of the file itself are among them. The tags found before
  the error are returned to the caller, not discarded.
\<close>

theorem Walk_returns_error_with_partial_tags:
  assumes fs: "FileSystem arg = Inr root"
    and reach: "reaches (callback (IgnorePatterns arg)) (Root arg) root initState path (File n ops) s"
    and valid: "validatePath path (IgnorePatterns arg)"
    and fail: "stepFailure ops = Some e"
    and e: "e \<noteq> SkipDir" "e \<noteq> SkipAll"
  shows "Walk arg =
     Inr (tags s @ (if OpenError ops = None \<and> InfoError ops = None \<and> ScanError ops = None
                    then ScanTags ops else []),
          Some e)"
proof -
  let ?cb = "callback (IgnorePatterns arg)"
  let ?found = "if OpenError ops = None \<and> InfoError ops = None \<and> ScanError ops = None
                then ScanTags ops else []"
  let ?s' = "s\<lparr>visited := visited s @ [path], opened := opened s @ [path],
               tags := tags s @ ?found\<rparr>"
  have "walkDir ?cb path (File n ops) s = Inr (Some e, ?s')"
    using valid fail by (simp add: callback_File scanFile_failure)
  then have "walkDir ?cb (Root arg) root initState = Inr (Some e, ?s')"
    using reaches_error [OF reach _ e(1)] by simp
  then have "runWalk arg = Inr (Some e, ?s')"
    using fs e by (simp add: runWalk_def WalkDir_def)
  then show ?thesis by (simp add: Walk_def)
qed

theorem Walk_returns_error_with_partial_tags_witness:
  "reaches (callback []) ''repo''
     (Dir ''repo'' [File ''a.go'' (scanned [''fix a'']), File ''b.go'' unreadable,
                    File ''c.go'' (scanned [''fix c''])] None)
     initState ''repo/b.go'' (File ''b.go'' unreadable)
     \<lparr>tags = [''fix a''], visited = [''repo'', ''repo/a.go''], opened = [''repo/a.go'']\<rparr> \<and>
   validatePath ''repo/b.go'' [] \<and>
   stepFailure unreadable = Some (IOError ''permission denied'') \<and>
   Walk repoUnreadableFile = Inr ([''fix a''], Some (IOError ''permission denied''))"
proof -
  let ?a = "File ''a.go'' (scanned [''fix a''])"
  let ?b = "File ''b.go'' unreadable"
  let ?c = "File ''c.go'' (scanned [''fix c''])"
  let ?s0 = "\<lparr>tags = [], visited = [''repo''], opened = []\<rparr> :: string WalkState"
  let ?s1 = "\<lparr>tags = [''fix a''], visited = [''repo'', ''repo/a.go''], opened = [''repo/a.go'']\<rparr>"
  have b: "reaches (callback []) (JoinPath ''repo'' (Name ?b)) ?b ?s1 ''repo/b.go'' ?b ?s1"
    by (simp add: JoinPath_def reaches_reachesIn.here)
  have a: "walkDir (callback []) (JoinPath ''repo'' (Name ?a)) ?a ?s0 = Inr (None, ?s1)"
    by (simp add: walk_eval)
  have "reachesIn (callback []) ''repo'' [?a, ?b, ?c] ?s0 ''repo/b.go'' ?b ?s1"
    by (rule later [OF a]) (rule first [OF b])
  moreover have "callback [] ''repo'' (Some (Dir ''repo'' [?a, ?b, ?c] None)) None initState =
      Inr (None, ?s0)"
    by (simp add: walk_eval)
  ultimately have r: "reaches (callback []) ''repo'' (Dir ''repo'' [?a, ?b, ?c] None) initState
      ''repo/b.go'' ?b ?s1"
    by (rule listed [rotated])
  have f: "stepFailure unreadable = Some (IOError ''permission denied'')"
    by (simp add: stepFailure_def unreadable_def)
  have "Walk repoUnreadableFile =
     Inr (tags ?s1 @ (if OpenError unreadable = None \<and> InfoError unreadable = None \<and> ScanError unreadable = None
                    then ScanTags unreadable else []),
          Some (IOError ''permission denied''))"
    by (rule Walk_returns_error_with_partial_tags [where root = "Dir ''repo'' [?a, ?b, ?c] None"
          and path = "''repo/b.go''" and n = "''b.go''"])
       (simp_all add: repoUnreadableFile_def r f)
  then have "Walk repoUnreadableFile = Inr ([''fix a''], Some (IOError ''permission denied''))"
    by (simp add: unreadable_def)
  with r f show ?thesis by simp
qed

text \<open>
  C2 as stated fails: \<open>a.go\<close> is scanned, then \<open>b.go\<close> cannot be opened, and \<open>Walk\<close>
  returns the error together with the tag found in \<open>a.go\<close>, not with an empty sequence.
\<close>

theorem Walk_partial_tags_counterexample:
  "Walk repoUnreadableFile = Inr ([''fix a''], Some (IOError ''permission denied'')) \<and>
   [''fix a''] \<noteq> ([] :: string list)"
  by (simp add: repoUnreadableFile_def walk_eval)

text \<open>
  C3 says that a failure to list a directory stops the walk and reaches the caller. In
  the code the answer of the callback for a directory does not depend on the error it
  is called with: it is \<open>SkipDir\<close> or \<open>nil\<close>. In the tree below \<open>sub\<close> cannot be listed;
  the walk goes on to \<open>z.go\<close> and \<open>Walk\<close> returns its tag and no error.
\<close>

theorem listing_error_not_propagated:
  "callback pats path (Some (Dir n es rerr)) wErr s =
     Inr (if Contains n ''.git'' \<or> \<not> validatePath path pats then Some SkipDir else None,
          s\<lparr>visited := visited s @ [path]\<rparr>) \<and>
   runWalk repoUnlistedDir =
     Inr (None, \<lparr>tags = [''fix z''],
                 visited = [''repo'', ''repo/sub'', ''repo/sub'', ''repo/z.go''],
                 opened = [''repo/z.go'']\<rparr>) \<and>
   Walk repoUnlistedDir = Inr ([''fix z''], None)"
  by (simp add: callback_Dir repoUnlistedDir_def walk_eval)

text \<open>
  C4 says that an ordinary directory named \<open>.github\<close> is descended into. In the code the
  callback answers \<open>SkipDir\<close> for it, no ignore pattern being given: the walk visits the
  root and \<open>.github\<close>, opens nothing and returns no tag.
\<close>

theorem github_directory_pruned:
  "callback [] ''repo/.github'' (Some (Dir ''.github'' es rerr)) None s =
     Inr (Some SkipDir, s\<lparr>visited := visited s @ [''repo/.github'']\<rparr>) \<and>
   runWalk repoGithub =
     Inr (None, \<lparr>tags = [], visited = [''repo'', ''repo/.github''], opened = []\<rparr>) \<and>
   Walk repoGithub = Inr ([], None)"
  by (simp add: repoGithub_def walk_eval)

end
